theory Spec2Isabelle
  imports Main "HOL-Library.Sublist"
begin

section \<open>The two job specifications of the tutorial\<close>

text \<open>
  The repository holds one notebook,
  \<^verbatim>\<open>Demos and Tutorials/L100-200 Tutorials/4.Create_Workflow_through_CLI.ipynb.py\<close>.
  It has no functions: its content is two shell commands, each passing a literal JSON
  document to \<^verbatim>\<open>databricks jobs create --json\<close>. The first document (source lines
  8 to 63) carries concrete values, the second (source lines 69 to 124) is the same job
  with placeholders. Both documents are embedded twice: as the text the notebook holds,
  line by line, and as the JSON value that text denotes. A parser for the JSON grammar
  the documents use connects the two.
\<close>

subsection \<open>JSON values\<close>

text \<open>
  The documents use three kinds of JSON value only: strings, arrays and objects. An
  object keeps its members in the order of the text, as an association list.
\<close>

datatype json =
    JString string
  | JArray "json list"
  | JObject "(string \<times> json) list"

subsection \<open>The text of the documents\<close>

text \<open>
  Each document is the argument the shell passes after \<^verbatim>\<open>--json\<close>: the lines
  between the two single quotes. The opening quote ends source line 7 (68) and the closing
  quote stands alone on line 64 (125), so the argument starts with a line break and every
  line of the document ends with one.
\<close>

definition concrete_lines :: "string list" where
  \<open>concrete_lines =
    [''{'',
     ''  "name": "Orchestrating_SQL_Files_on_DBSQL_WAREHOUSE",'',
     ''  "tasks": ['',
     ''    {'',
     ''      "task_key": "Create_Tables",'',
     ''      "run_if": "ALL_SUCCESS",'',
     ''      "sql_task": {'',
     ''        "file": {'',
     ''          "path": "Demos and Tutorials/L100-200 Tutorials/1.Create_Tables.sql",'',
     ''          "source": "GIT"'',
     ''        },'',
     ''        "warehouse_id": "d1184b8c2a8a87eb"'',
     ''      }'',
     ''    },'',
     ''    {'',
     ''      "task_key": "Load_Data",'',
     ''      "depends_on": ['',
     ''        {'',
     ''          "task_key": "Create_Tables"'',
     ''        }'',
     ''      ],'',
     ''      "run_if": "ALL_SUCCESS",'',
     ''      "sql_task": {'',
     ''        "file": {'',
     ''          "path": "/Repos/saurabh.shukla@databricks.com/dbsql_sme/Demos and Tutorials/L100-200 Tutorials/2.Load_Data.sql",'',
     ''          "source": "WORKSPACE"'',
     ''        },'',
     ''        "warehouse_id": "d1184b8c2a8a87eb"'',
     ''      }'',
     ''    },'',
     ''    {'',
     ''      "task_key": "Query_Fact_Sales",'',
     ''      "depends_on": ['',
     ''        {'',
     ''          "task_key": "Load_Data"'',
     ''        }'',
     ''      ],'',
     ''      "run_if": "ALL_SUCCESS",'',
     ''      "sql_task": {'',
     ''        "file": {'',
     ''          "path": "/Repos/saurabh.shukla@databricks.com/dbsql_sme/Demos and Tutorials/L100-200 Tutorials/3.Query_Fact_Sales.sql",'',
     ''          "source": "WORKSPACE"'',
     ''        },'',
     ''        "warehouse_id": "d1184b8c2a8a87eb"'',
     ''      }'',
     ''    }'',
     ''  ],'',
     ''  "git_source": {'',
     ''    "git_url": "https://github.com/saurabhshukla-db/dbsql_sme.git",'',
     ''    "git_provider": "gitHub",'',
     ''    "git_branch": "feature_branch_sqlfiles"'',
     ''  },'',
     ''  "run_as": {'',
     ''    "user_name": "saurabh.shukla@databricks.com"'',
     ''  }'',
     ''}'']\<close>

definition templated_lines :: "string list" where
  \<open>templated_lines =
    [''{'',
     ''  "name": "Orchestrating_SQL_Files_on_DBSQL_WAREHOUSE",'',
     ''  "tasks": ['',
     ''    {'',
     ''      "task_key": "Create_Tables",'',
     ''      "run_if": "ALL_SUCCESS",'',
     ''      "sql_task": {'',
     ''        "file": {'',
     ''          "path": "<GITPATH>/1.Create_Tables.sql",'',
     ''          "source": "GIT"'',
     ''        },'',
     ''        "warehouse_id": "<DBSQL warehouse_id>"'',
     ''      }'',
     ''    },'',
     ''    {'',
     ''      "task_key": "Load_Data",'',
     ''      "depends_on": ['',
     ''        {'',
     ''          "task_key": "Create_Tables"'',
     ''        }'',
     ''      ],'',
     ''      "run_if": "ALL_SUCCESS",'',
     ''      "sql_task": {'',
     ''        "file": {'',
     ''          "path": "<GITPATH>/2.Load_Data.sql",'',
     ''          "source": "WORKSPACE"'',
     ''        },'',
     ''        "warehouse_id": "<DBSQL warehouse_id>"'',
     ''      }'',
     ''    },'',
     ''    {'',
     ''      "task_key": "Query_Fact_Sales",'',
     ''      "depends_on": ['',
     ''        {'',
     ''          "task_key": "Load_Data"'',
     ''        }'',
     ''      ],'',
     ''      "run_if": "ALL_SUCCESS",'',
     ''      "sql_task": {'',
     ''        "file": {'',
     ''          "path": "<GITPATH>/3.Query_Fact_Sales.sql",'',
     ''          "source": "WORKSPACE"'',
     ''        },'',
     ''        "warehouse_id": "<DBSQL warehouse_id>"'',
     ''      }'',
     ''    }'',
     ''  ],'',
     ''  "git_source": {'',
     ''    "git_url": "https://github.com/<GITUSERNAME>/dbsql_sme.git",'',
     ''    "git_provider": "gitHub",'',
     ''    "git_branch": "feature_branch_sqlfiles"'',
     ''  },'',
     ''  "run_as": {'',
     ''    "user_name": "<username>@<domain>.com"'',
     ''  }'',
     ''}'']\<close>

definition newline :: char where
  "newline = CHR 0x0A"

definition shell_argument :: "string list \<Rightarrow> string" where
  "shell_argument ls = newline # concat (map (\<lambda>l. l @ [newline]) ls)"

definition concrete_text :: string where
  "concrete_text = shell_argument concrete_lines"

definition templated_text :: string where
  "templated_text = shell_argument templated_lines"

subsection \<open>The values the documents denote\<close>

definition concrete_job :: json where
  \<open>concrete_job =
    JObject
     [(''name'', JString ''Orchestrating_SQL_Files_on_DBSQL_WAREHOUSE''),
      (''tasks'', JArray
       [JObject
         [(''task_key'', JString ''Create_Tables''),
          (''run_if'', JString ''ALL_SUCCESS''),
          (''sql_task'', JObject
           [(''file'', JObject
             [(''path'', JString ''Demos and Tutorials/L100-200 Tutorials/1.Create_Tables.sql''),
              (''source'', JString ''GIT'')]),
            (''warehouse_id'', JString ''d1184b8c2a8a87eb'')])],
        JObject
         [(''task_key'', JString ''Load_Data''),
          (''depends_on'', JArray
           [JObject
             [(''task_key'', JString ''Create_Tables'')]]),
          (''run_if'', JString ''ALL_SUCCESS''),
          (''sql_task'', JObject
           [(''file'', JObject
             [(''path'', JString ''/Repos/saurabh.shukla@databricks.com/dbsql_sme/Demos and Tutorials/L100-200 Tutorials/2.Load_Data.sql''),
              (''source'', JString ''WORKSPACE'')]),
            (''warehouse_id'', JString ''d1184b8c2a8a87eb'')])],
        JObject
         [(''task_key'', JString ''Query_Fact_Sales''),
          (''depends_on'', JArray
           [JObject
             [(''task_key'', JString ''Load_Data'')]]),
          (''run_if'', JString ''ALL_SUCCESS''),
          (''sql_task'', JObject
           [(''file'', JObject
             [(''path'', JString ''/Repos/saurabh.shukla@databricks.com/dbsql_sme/Demos and Tutorials/L100-200 Tutorials/3.Query_Fact_Sales.sql''),
              (''source'', JString ''WORKSPACE'')]),
            (''warehouse_id'', JString ''d1184b8c2a8a87eb'')])]]),
      (''git_source'', JObject
       [(''git_url'', JString ''https://github.com/saurabhshukla-db/dbsql_sme.git''),
        (''git_provider'', JString ''gitHub''),
        (''git_branch'', JString ''feature_branch_sqlfiles'')]),
      (''run_as'', JObject
       [(''user_name'', JString ''saurabh.shukla@databricks.com'')])]\<close>

definition templated_job :: json where
  \<open>templated_job =
    JObject
     [(''name'', JString ''Orchestrating_SQL_Files_on_DBSQL_WAREHOUSE''),
      (''tasks'', JArray
       [JObject
         [(''task_key'', JString ''Create_Tables''),
          (''run_if'', JString ''ALL_SUCCESS''),
          (''sql_task'', JObject
           [(''file'', JObject
             [(''path'', JString ''<GITPATH>/1.Create_Tables.sql''),
              (''source'', JString ''GIT'')]),
            (''warehouse_id'', JString ''<DBSQL warehouse_id>'')])],
        JObject
         [(''task_key'', JString ''Load_Data''),
          (''depends_on'', JArray
           [JObject
             [(''task_key'', JString ''Create_Tables'')]]),
          (''run_if'', JString ''ALL_SUCCESS''),
          (''sql_task'', JObject
           [(''file'', JObject
             [(''path'', JString ''<GITPATH>/2.Load_Data.sql''),
              (''source'', JString ''WORKSPACE'')]),
            (''warehouse_id'', JString ''<DBSQL warehouse_id>'')])],
        JObject
         [(''task_key'', JString ''Query_Fact_Sales''),
          (''depends_on'', JArray
           [JObject
             [(''task_key'', JString ''Load_Data'')]]),
          (''run_if'', JString ''ALL_SUCCESS''),
          (''sql_task'', JObject
           [(''file'', JObject
             [(''path'', JString ''<GITPATH>/3.Query_Fact_Sales.sql''),
              (''source'', JString ''WORKSPACE'')]),
            (''warehouse_id'', JString ''<DBSQL warehouse_id>'')])]]),
      (''git_source'', JObject
       [(''git_url'', JString ''https://github.com/<GITUSERNAME>/dbsql_sme.git''),
        (''git_provider'', JString ''gitHub''),
        (''git_branch'', JString ''feature_branch_sqlfiles'')]),
      (''run_as'', JObject
       [(''user_name'', JString ''<username>@<domain>.com'')])]\<close>

subsection \<open>Reading a job specification\<close>

text \<open>
  The accessors follow the field names of the documents. A field that is absent, or holds
  a value of another kind, reads as \<open>None\<close>.
\<close>

fun field :: "string \<Rightarrow> json \<Rightarrow> json option" where
  "field k (JObject ms) = map_of ms k"
| "field k (JArray vs) = None"
| "field k (JString s) = None"

fun as_string :: "json \<Rightarrow> string option" where
  "as_string (JString s) = Some s"
| "as_string (JArray vs) = None"
| "as_string (JObject ms) = None"

fun as_array :: "json \<Rightarrow> json list option" where
  "as_array (JArray vs) = Some vs"
| "as_array (JString s) = None"
| "as_array (JObject ms) = None"

definition string_field :: "string \<Rightarrow> json \<Rightarrow> string option" where
  "string_field k j = Option.bind (field k j) as_string"

definition tasks :: "json \<Rightarrow> json list" where
  "tasks j = (case Option.bind (field ''tasks'' j) as_array of Some ts \<Rightarrow> ts | None \<Rightarrow> [])"

definition task_key :: "json \<Rightarrow> string option" where
  "task_key t = string_field ''task_key'' t"

definition run_if :: "json \<Rightarrow> string option" where
  "run_if t = string_field ''run_if'' t"

definition file_source :: "json \<Rightarrow> string option" where
  "file_source t =
     Option.bind (Option.bind (field ''sql_task'' t) (field ''file'')) (string_field ''source'')"

definition warehouse_id :: "json \<Rightarrow> string option" where
  "warehouse_id t = Option.bind (field ''sql_task'' t) (string_field ''warehouse_id'')"

text \<open>The entries of a task's \<open>depends_on\<close> array; none when the task has no such field.\<close>

definition depends_on_entries :: "json \<Rightarrow> json list" where
  "depends_on_entries t =
     (case Option.bind (field ''depends_on'' t) as_array of Some ds \<Rightarrow> ds | None \<Rightarrow> [])"

definition lacks_depends_on :: "json \<Rightarrow> bool" where
  "lacks_depends_on t = (field ''depends_on'' t = None)"

definition task_keys :: "json \<Rightarrow> string list" where
  "task_keys j = List.map_filter task_key (tasks j)"

definition depends_on :: "json \<Rightarrow> string list" where
  "depends_on t = List.map_filter task_key (depends_on_entries t)"

text \<open>
  The dependency graph: an edge \<open>(k, d)\<close> says that the task with key \<open>k\<close> depends on
  the task with key \<open>d\<close>.
\<close>

definition task_edges :: "json \<Rightarrow> (string \<times> string) list" where
  "task_edges t =
     (case task_key t of Some k \<Rightarrow> map (\<lambda>d. (k, d)) (depends_on t) | None \<Rightarrow> [])"

definition depends_on_edges :: "json \<Rightarrow> (string \<times> string) list" where
  "depends_on_edges j = concat (map task_edges (tasks j))"

text \<open>A \<open>depends_on\<close> entry refers to a task of the job: it has a key, and the key is a task's.\<close>

definition references_task_of :: "json \<Rightarrow> json \<Rightarrow> bool" where
  "references_task_of j d =
     (case task_key d of Some k \<Rightarrow> k \<in> set (task_keys j) | None \<Rightarrow> False)"

definition source_values :: "string set" where
  "source_values = {''GIT'', ''WORKSPACE''}"

definition has_valid_source :: "json \<Rightarrow> bool" where
  "has_valid_source t = (case file_source t of Some s \<Rightarrow> s \<in> source_values | None \<Rightarrow> False)"

text \<open>Every value stored under the key \<open>k\<close>, at any depth of the document.\<close>

fun values_at :: "string \<Rightarrow> json \<Rightarrow> json list" where
  "values_at k (JString s) = []"
| "values_at k (JArray vs) = concat (map (values_at k) vs)"
| "values_at k (JObject ms) =
     concat (map (\<lambda>(k', v). (if k' = k then [v] else []) @ values_at k v) ms)"

subsection \<open>Reading the text: a lexer and a parser\<close>

text \<open>
  The JSON grammar, for the fragment the documents use: a value is a string, an array
  \<^verbatim>\<open>[v, ...]\<close> or an object \<^verbatim>\<open>{"k": v, ...}\<close>; blanks, tabs and line breaks between
  tokens are skipped; inside a string a backslash escapes a quote or a backslash. Numbers,
  \<^verbatim>\<open>true\<close>, \<^verbatim>\<open>false\<close>, \<^verbatim>\<open>null\<close> and the other escape sequences do not occur in the
  documents, and the lexer rejects them.
\<close>

datatype token = TLBrace | TRBrace | TLBrack | TRBrack | TColon | TComma | TStr string

datatype char_class = Quote | Backslash | Space | Punct token | Other

definition classify :: "char \<Rightarrow> char_class" where
  "classify c =
     (if c = CHR 0x22 then Quote
      else if c = CHR 0x5C then Backslash
      else if c = CHR 0x20 \<or> c = CHR 0x0A \<or> c = CHR 0x0D \<or> c = CHR 0x09 then Space
      else if c = CHR ''{'' then Punct TLBrace
      else if c = CHR ''}'' then Punct TRBrace
      else if c = CHR ''['' then Punct TLBrack
      else if c = CHR '']'' then Punct TRBrack
      else if c = CHR '':'' then Punct TColon
      else if c = CHR '','' then Punct TComma
      else Other)"

text \<open>
  The lexer reads the text once, from left to right. Its mode says whether it is between
  tokens, inside a string (whose characters so far it holds, last first) or just after a
  backslash inside a string. The tokens read so far are held last first as well.
\<close>

datatype lex_mode = Outside | InString string | Escaped string

fun lex :: "lex_mode \<Rightarrow> token list \<Rightarrow> string \<Rightarrow> token list option"
  and lex_at :: "lex_mode \<Rightarrow> char_class \<Rightarrow> char \<Rightarrow> token list \<Rightarrow> string \<Rightarrow> token list option"
where
  "lex Outside ts [] = Some (rev ts)"
| "lex (InString s) ts [] = None"
| "lex (Escaped s) ts [] = None"
| "lex m ts (c # cs) = lex_at m (classify c) c ts cs"
| "lex_at Outside Quote c ts cs = lex (InString []) ts cs"
| "lex_at Outside Space c ts cs = lex Outside ts cs"
| "lex_at Outside (Punct t) c ts cs = lex Outside (t # ts) cs"
| "lex_at Outside Backslash c ts cs = None"
| "lex_at Outside Other c ts cs = None"
| "lex_at (InString s) Quote c ts cs = lex Outside (TStr (rev s) # ts) cs"
| "lex_at (InString s) Backslash c ts cs = lex (Escaped s) ts cs"
| "lex_at (InString s) Space c ts cs = lex (InString (c # s)) ts cs"
| "lex_at (InString s) (Punct t) c ts cs = lex (InString (c # s)) ts cs"
| "lex_at (InString s) Other c ts cs = lex (InString (c # s)) ts cs"
| "lex_at (Escaped s) Quote c ts cs = lex (InString (c # s)) ts cs"
| "lex_at (Escaped s) Backslash c ts cs = lex (InString (c # s)) ts cs"
| "lex_at (Escaped s) Space c ts cs = None"
| "lex_at (Escaped s) (Punct t) c ts cs = None"
| "lex_at (Escaped s) Other c ts cs = None"

definition tokens :: "string \<Rightarrow> token list option" where
  "tokens text = lex Outside [] text"

text \<open>
  The parser is a pushdown automaton over the tokens. A frame of its stack is an array or
  an object under construction; \<open>FKey\<close> is an object that has read a key and waits for
  the key's value. The state says what may come next.
\<close>

datatype frame =
    FArr "json list"
  | FObj "(string \<times> json) list"
  | FKey "(string \<times> json) list" string

datatype pstate =
    WantValue "frame list"
  | WantValueOrClose "frame list"
  | WantKey "frame list"
  | WantKeyOrClose "frame list"
  | WantColon "frame list"
  | WantSep "frame list"
  | Done json
  | Failed

fun deliver :: "json \<Rightarrow> frame list \<Rightarrow> pstate" where
  "deliver v [] = Done v"
| "deliver v (FArr vs # st) = WantSep (FArr (vs @ [v]) # st)"
| "deliver v (FKey ms k # st) = WantSep (FObj (ms @ [(k, v)]) # st)"
| "deliver v (FObj ms # st) = Failed"

fun open_value :: "token \<Rightarrow> frame list \<Rightarrow> pstate" where
  "open_value (TStr s) st = deliver (JString s) st"
| "open_value TLBrack st = WantValueOrClose (FArr [] # st)"
| "open_value TLBrace st = WantKeyOrClose (FObj [] # st)"
| "open_value _ st = Failed"

fun close_array :: "frame list \<Rightarrow> pstate" where
  "close_array (FArr vs # st) = deliver (JArray vs) st"
| "close_array _ = Failed"

fun close_object :: "frame list \<Rightarrow> pstate" where
  "close_object (FObj ms # st) = deliver (JObject ms) st"
| "close_object _ = Failed"

fun take_key :: "string \<Rightarrow> frame list \<Rightarrow> pstate" where
  "take_key k (FObj ms # st) = WantColon (FKey ms k # st)"
| "take_key k _ = Failed"

fun next_member :: "frame list \<Rightarrow> pstate" where
  "next_member (FArr vs # st) = WantValue (FArr vs # st)"
| "next_member (FObj ms # st) = WantKey (FObj ms # st)"
| "next_member _ = Failed"

fun step :: "pstate \<Rightarrow> token \<Rightarrow> pstate" where
  "step (WantValue st) t = open_value t st"
| "step (WantValueOrClose st) TRBrack = close_array st"
| "step (WantValueOrClose st) t = open_value t st"
| "step (WantKeyOrClose st) TRBrace = close_object st"
| "step (WantKeyOrClose st) (TStr k) = take_key k st"
| "step (WantKey st) (TStr k) = take_key k st"
| "step (WantColon st) TColon = WantValue st"
| "step (WantSep st) TComma = next_member st"
| "step (WantSep st) TRBrack = close_array st"
| "step (WantSep st) TRBrace = close_object st"
| "step _ _ = Failed"

fun result :: "pstate \<Rightarrow> json option" where
  "result (Done v) = Some v"
| "result _ = None"

definition parse_tokens :: "token list \<Rightarrow> json option" where
  "parse_tokens ts = result (foldl step (WantValue []) ts)"

definition parse :: "string \<Rightarrow> json option" where
  "parse text = Option.bind (tokens text) parse_tokens"

subsection \<open>Writing a value back as text\<close>

text \<open>
  The serializer writes a value on one line, with \<^verbatim>\<open>, \<close> between the members and
  \<^verbatim>\<open>: \<close> after a key, and escapes the quotes and backslashes of a string.
\<close>

definition escape_char :: "char \<Rightarrow> string" where
  "escape_char c = (if c = CHR 0x22 \<or> c = CHR 0x5C then [CHR 0x5C, c] else [c])"

definition render_string :: "string \<Rightarrow> string" where
  "render_string s = CHR 0x22 # concat (map escape_char s) @ [CHR 0x22]"

fun join :: "'a list \<Rightarrow> 'a list list \<Rightarrow> 'a list" where
  "join sep [] = []"
| "join sep [x] = x"
| "join sep (x # y # ys) = x @ sep @ join sep (y # ys)"

fun render :: "json \<Rightarrow> string" where
  "render (JString s) = render_string s"
| "render (JArray vs) = ''['' @ join '', '' (map render vs) @ '']''"
| "render (JObject ms) =
     ''{'' @ join '', '' (map (\<lambda>(k, v). render_string k @ '': '' @ render v) ms) @ ''}''"

definition reserialize :: "string \<Rightarrow> string option" where
  "reserialize text = map_option render (parse text)"

text \<open>
  The task graph of a job: the set of its task keys, the set of its dependency edges, and
  the run_if of each task.
\<close>

definition task_graph ::
  "json \<Rightarrow> string set \<times> (string \<times> string) set \<times> (string option \<times> string option) list" where
  "task_graph j =
     (set (task_keys j), set (depends_on_edges j), map (\<lambda>t. (task_key t, run_if t)) (tasks j))"

subsection \<open>Placeholders\<close>

text \<open>The four placeholders of the templated document.\<close>

definition placeholders :: "string list" where
  "placeholders =
     [''<GITPATH>'', ''<DBSQL warehouse_id>'', ''<GITUSERNAME>'', ''<username>@<domain>.com'']"

fun starts_with :: "string \<Rightarrow> string \<Rightarrow> bool"
  and starts_with_if :: "bool \<Rightarrow> string \<Rightarrow> string \<Rightarrow> bool"
where
  "starts_with [] s = True"
| "starts_with (x # xs) [] = False"
| "starts_with (x # xs) (y # ys) = starts_with_if (x = y) xs ys"
| "starts_with_if True xs ys = starts_with xs ys"
| "starts_with_if False xs ys = False"

text \<open>The first of the strings \<open>ps\<close> that the text \<open>s\<close> starts with.\<close>

fun placeholder_at :: "string list \<Rightarrow> string \<Rightarrow> string option"
  and placeholder_if :: "bool \<Rightarrow> string \<Rightarrow> string list \<Rightarrow> string \<Rightarrow> string option"
where
  "placeholder_at [] s = None"
| "placeholder_at (p # ps) s = placeholder_if (p \<noteq> [] \<and> starts_with p s) p ps s"
| "placeholder_if True p ps s = Some p"
| "placeholder_if False p ps s = placeholder_at ps s"

text \<open>
  A scan cuts a text into the occurrences of the placeholders and the characters between
  them, from left to right. The counter is the number of characters still to skip, those
  of the placeholder just found.
\<close>

datatype piece = Plain char | Placeholder string

fun scan :: "string list \<Rightarrow> nat \<Rightarrow> string \<Rightarrow> piece list"
  and scan_at :: "string list \<Rightarrow> string option \<Rightarrow> char \<Rightarrow> string \<Rightarrow> piece list"
where
  "scan ps n [] = []"
| "scan ps (Suc n) (c # cs) = scan ps n cs"
| "scan ps 0 (c # cs) = scan_at ps (placeholder_at ps (c # cs)) c cs"
| "scan_at ps (Some p) c cs = Placeholder p # scan ps (length p - 1) cs"
| "scan_at ps None c cs = Plain c # scan ps 0 cs"

fun found_placeholders :: "piece list \<Rightarrow> string list" where
  "found_placeholders [] = []"
| "found_placeholders (Placeholder p # xs) = p # found_placeholders xs"
| "found_placeholders (Plain c # xs) = found_placeholders xs"

fun plain_text :: "piece list \<Rightarrow> string" where
  "plain_text [] = []"
| "plain_text (Placeholder p # xs) = plain_text xs"
| "plain_text (Plain c # xs) = c # plain_text xs"

definition contains_placeholder :: "string \<Rightarrow> bool" where
  "contains_placeholder s = list_ex (\<lambda>p. sublist p s) placeholders"

subsection \<open>The structure of a document\<close>

text \<open>The shape of a value: the value with every leaf string emptied.\<close>

fun shape :: "json \<Rightarrow> json" where
  "shape (JString s) = JString []"
| "shape (JArray vs) = JArray (map shape vs)"
| "shape (JObject ms) = JObject (map (\<lambda>(k, v). (k, shape v)) ms)"

text \<open>
  The leaf strings of a value, each with the path that leads to it: the field names and
  array positions from the root.
\<close>

datatype selector = Key string | Index nat

fun leaves :: "json \<Rightarrow> (selector list \<times> string) list"
  and leaves_elements :: "nat \<Rightarrow> json list \<Rightarrow> (selector list \<times> string) list"
  and leaves_members :: "(string \<times> json) list \<Rightarrow> (selector list \<times> string) list"
where
  "leaves (JString s) = [([], s)]"
| "leaves (JArray vs) = leaves_elements 0 vs"
| "leaves (JObject ms) = leaves_members ms"
| "leaves_elements i [] = []"
| "leaves_elements i (v # vs) =
     map (\<lambda>(p, s). (Index i # p, s)) (leaves v) @ leaves_elements (Suc i) vs"
| "leaves_members [] = []"
| "leaves_members ((k, v) # ms) =
     map (\<lambda>(p, s). (Key k # p, s)) (leaves v) @ leaves_members ms"

text \<open>The leaves at which two documents of the same shape differ, with both values.\<close>

definition differing_leaves :: "json \<Rightarrow> json \<Rightarrow> (selector list \<times> string \<times> string) list" where
  "differing_leaves a b =
     map (\<lambda>((p, x), (q, y)). (p, x, y))
       (filter (\<lambda>((p, x), (q, y)). x \<noteq> y) (zip (leaves a) (leaves b)))"

text \<open>The position of a key in the chain of the concrete example.\<close>

definition chain_rank :: "string \<Rightarrow> nat" where
  "chain_rank k = (if k = ''Create_Tables'' then 0 else if k = ''Load_Data'' then 1 else 2)"

section \<open>Properties of the two documents\<close>

lemmas accessor_defs =
  string_field_def tasks_def task_key_def run_if_def file_source_def warehouse_id_def
  depends_on_entries_def lacks_depends_on_def task_keys_def depends_on_def task_edges_def
  depends_on_edges_def references_task_of_def has_valid_source_def source_values_def
  List.map_filter_def

lemma concrete_edges:
  "depends_on_edges concrete_job =
     [(''Load_Data'', ''Create_Tables''), (''Query_Fact_Sales'', ''Load_Data'')]"
  by (simp add: accessor_defs concrete_job_def)

lemma templated_edges:
  "depends_on_edges templated_job =
     [(''Load_Data'', ''Create_Tables''), (''Query_Fact_Sales'', ''Load_Data'')]"
  by (simp add: accessor_defs templated_job_def)

lemma concrete_task_keys:
  "task_keys concrete_job = [''Create_Tables'', ''Load_Data'', ''Query_Fact_Sales'']"
  by (simp add: accessor_defs concrete_job_def)

lemma templated_task_keys:
  "task_keys templated_job = [''Create_Tables'', ''Load_Data'', ''Query_Fact_Sales'']"
  by (simp add: accessor_defs templated_job_def)

lemma chain_acyclic:
  "acyclic {(''Load_Data'', ''Create_Tables''), (''Query_Fact_Sales'', ''Load_Data'')}"
proof -
  let ?r = "{(''Load_Data'', ''Create_Tables''), (''Query_Fact_Sales'', ''Load_Data'')}"
  have "?r\<inverse> \<subseteq> measure chain_rank"
    by (auto simp: chain_rank_def)
  then have "wf (?r\<inverse>)"
    by (rule wf_subset [OF wf_measure])
  then have "acyclic (?r\<inverse>)"
    by (rule wf_acyclic)
  then show ?thesis
    by (simp only: acyclic_converse)
qed

subsection \<open>The text and the value agree\<close>

lemmas parser_defs = parse_def tokens_def classify_def parse_tokens_def

lemmas text_defs = shell_argument_def newline_def

lemma parse_concrete_text: "parse concrete_text = Some concrete_job"
  by (simp add: parser_defs text_defs concrete_text_def concrete_lines_def concrete_job_def)

lemma parse_templated_text: "parse templated_text = Some templated_job"
  by (simp add: parser_defs text_defs templated_text_def templated_lines_def templated_job_def)

lemma parse_render_concrete: "parse (render concrete_job) = Some concrete_job"
  by (simp add: parser_defs render_string_def escape_char_def concrete_job_def)

lemma parse_render_templated: "parse (render templated_job) = Some templated_job"
  by (simp add: parser_defs render_string_def escape_char_def templated_job_def)

lemma concrete_task_graph:
  "task_graph concrete_job =
     ({''Create_Tables'', ''Load_Data'', ''Query_Fact_Sales''},
      {(''Load_Data'', ''Create_Tables''), (''Query_Fact_Sales'', ''Load_Data'')},
      [(Some ''Create_Tables'', Some ''ALL_SUCCESS''),
       (Some ''Load_Data'', Some ''ALL_SUCCESS''),
       (Some ''Query_Fact_Sales'', Some ''ALL_SUCCESS'')])"
  by (simp add: task_graph_def accessor_defs concrete_job_def)

lemma templated_task_graph:
  "task_graph templated_job =
     ({''Create_Tables'', ''Load_Data'', ''Query_Fact_Sales''},
      {(''Load_Data'', ''Create_Tables''), (''Query_Fact_Sales'', ''Load_Data'')},
      [(Some ''Create_Tables'', Some ''ALL_SUCCESS''),
       (Some ''Load_Data'', Some ''ALL_SUCCESS''),
       (Some ''Query_Fact_Sales'', Some ''ALL_SUCCESS'')])"
  by (simp add: task_graph_def accessor_defs templated_job_def)

subsection \<open>The claims\<close>

text \<open>
  C2. In the concrete document the dependency graph is the chain
  Create_Tables, Load_Data, Query_Fact_Sales: its edges are exactly
  (Load_Data depends on Create_Tables) and (Query_Fact_Sales depends on Load_Data), and
  no key reaches itself along one or more edges.
\<close>

theorem concrete_graph_is_acyclic_chain:
  "depends_on_edges concrete_job =
     [(''Load_Data'', ''Create_Tables''), (''Query_Fact_Sales'', ''Load_Data'')]
   \<and> set (depends_on_edges concrete_job) =
     {(''Load_Data'', ''Create_Tables''), (''Query_Fact_Sales'', ''Load_Data'')}
   \<and> acyclic (set (depends_on_edges concrete_job))
   \<and> (\<forall>k. (k, k) \<notin> (set (depends_on_edges concrete_job))\<^sup>+)"
proof -
  have e: "depends_on_edges concrete_job =
     [(''Load_Data'', ''Create_Tables''), (''Query_Fact_Sales'', ''Load_Data'')]"
    by (rule concrete_edges)
  have s: "set (depends_on_edges concrete_job) =
     {(''Load_Data'', ''Create_Tables''), (''Query_Fact_Sales'', ''Load_Data'')}"
    by (simp only: e list.set)
  have a: "acyclic (set (depends_on_edges concrete_job))"
    by (simp only: s chain_acyclic)
  have r: "\<forall>k. (k, k) \<notin> (set (depends_on_edges concrete_job))\<^sup>+"
    using a unfolding acyclic_def by blast
  from e s a r show ?thesis by blast
qed

text \<open>
  C3. In both documents every entry of every task's depends_on array names a key that
  is the task_key of a task of the same document. Each document has two such entries.
\<close>

theorem depends_on_keys_exist:
  "list_all (references_task_of concrete_job)
     (concat (map depends_on_entries (tasks concrete_job)))
   \<and> length (concat (map depends_on_entries (tasks concrete_job))) = 2
   \<and> set (map snd (depends_on_edges concrete_job)) \<subseteq> set (task_keys concrete_job)
   \<and> list_all (references_task_of templated_job)
     (concat (map depends_on_entries (tasks templated_job)))
   \<and> length (concat (map depends_on_entries (tasks templated_job))) = 2
   \<and> set (map snd (depends_on_edges templated_job)) \<subseteq> set (task_keys templated_job)"
proof -
  have c1: "list_all (references_task_of concrete_job)
     (concat (map depends_on_entries (tasks concrete_job)))"
    by (simp add: accessor_defs concrete_job_def)
  have c2: "length (concat (map depends_on_entries (tasks concrete_job))) = 2"
    by (simp add: accessor_defs concrete_job_def)
  have c3: "set (map snd (depends_on_edges concrete_job)) \<subseteq> set (task_keys concrete_job)"
    by (simp add: concrete_edges concrete_task_keys)
  have t1: "list_all (references_task_of templated_job)
     (concat (map depends_on_entries (tasks templated_job)))"
    by (simp add: accessor_defs templated_job_def)
  have t2: "length (concat (map depends_on_entries (tasks templated_job))) = 2"
    by (simp add: accessor_defs templated_job_def)
  have t3: "set (map snd (depends_on_edges templated_job)) \<subseteq> set (task_keys templated_job)"
    by (simp add: templated_edges templated_task_keys)
  from c1 c2 c3 t1 t2 t3 show ?thesis by blast
qed

text \<open>
  C4. In both documents every task has an sql_task.file.source, and its value is GIT or
  WORKSPACE: the first task reads its file from GIT, the other two from WORKSPACE.
\<close>

theorem file_sources_enumerated:
  "map file_source (tasks concrete_job) = [Some ''GIT'', Some ''WORKSPACE'', Some ''WORKSPACE'']
   \<and> list_all has_valid_source (tasks concrete_job)
   \<and> map file_source (tasks templated_job) = [Some ''GIT'', Some ''WORKSPACE'', Some ''WORKSPACE'']
   \<and> list_all has_valid_source (tasks templated_job)"
proof -
  have c1: "map file_source (tasks concrete_job) =
      [Some ''GIT'', Some ''WORKSPACE'', Some ''WORKSPACE'']"
    by (simp add: accessor_defs concrete_job_def)
  have c2: "list_all has_valid_source (tasks concrete_job)"
    by (simp add: accessor_defs concrete_job_def)
  have t1: "map file_source (tasks templated_job) =
      [Some ''GIT'', Some ''WORKSPACE'', Some ''WORKSPACE'']"
    by (simp add: accessor_defs templated_job_def)
  have t2: "list_all has_valid_source (tasks templated_job)"
    by (simp add: accessor_defs templated_job_def)
  from c1 c2 t1 t2 show ?thesis by blast
qed

text \<open>
  C6. In each document every task has a task_key, and the keys of the tasks sequence are
  pairwise distinct.
\<close>

theorem task_keys_distinct:
  "map task_key (tasks concrete_job) =
     [Some ''Create_Tables'', Some ''Load_Data'', Some ''Query_Fact_Sales'']
   \<and> distinct (map task_key (tasks concrete_job))
   \<and> distinct (task_keys concrete_job)
   \<and> map task_key (tasks templated_job) =
     [Some ''Create_Tables'', Some ''Load_Data'', Some ''Query_Fact_Sales'']
   \<and> distinct (map task_key (tasks templated_job))
   \<and> distinct (task_keys templated_job)"
proof -
  have c1: "map task_key (tasks concrete_job) =
     [Some ''Create_Tables'', Some ''Load_Data'', Some ''Query_Fact_Sales'']"
    by (simp add: accessor_defs concrete_job_def)
  have c2: "distinct (map task_key (tasks concrete_job))"
    by (simp add: c1)
  have c3: "distinct (task_keys concrete_job)"
    by (simp add: concrete_task_keys)
  have t1: "map task_key (tasks templated_job) =
     [Some ''Create_Tables'', Some ''Load_Data'', Some ''Query_Fact_Sales'']"
    by (simp add: accessor_defs templated_job_def)
  have t2: "distinct (map task_key (tasks templated_job))"
    by (simp add: t1)
  have t3: "distinct (task_keys templated_job)"
    by (simp add: templated_task_keys)
  from c1 c2 c3 t1 t2 t3 show ?thesis by blast
qed

text \<open>
  C8. In both documents the run_if of every task is ALL_SUCCESS, and the values stored
  under the key run_if anywhere in a document are these three and no other.
\<close>

theorem run_if_all_success:
  "map run_if (tasks concrete_job) =
     [Some ''ALL_SUCCESS'', Some ''ALL_SUCCESS'', Some ''ALL_SUCCESS'']
   \<and> values_at ''run_if'' concrete_job =
     [JString ''ALL_SUCCESS'', JString ''ALL_SUCCESS'', JString ''ALL_SUCCESS'']
   \<and> map run_if (tasks templated_job) =
     [Some ''ALL_SUCCESS'', Some ''ALL_SUCCESS'', Some ''ALL_SUCCESS'']
   \<and> values_at ''run_if'' templated_job =
     [JString ''ALL_SUCCESS'', JString ''ALL_SUCCESS'', JString ''ALL_SUCCESS'']"
proof -
  have c1: "map run_if (tasks concrete_job) =
     [Some ''ALL_SUCCESS'', Some ''ALL_SUCCESS'', Some ''ALL_SUCCESS'']"
    by (simp add: accessor_defs concrete_job_def)
  have c2: "values_at ''run_if'' concrete_job =
     [JString ''ALL_SUCCESS'', JString ''ALL_SUCCESS'', JString ''ALL_SUCCESS'']"
    by (simp add: concrete_job_def)
  have t1: "map run_if (tasks templated_job) =
     [Some ''ALL_SUCCESS'', Some ''ALL_SUCCESS'', Some ''ALL_SUCCESS'']"
    by (simp add: accessor_defs templated_job_def)
  have t2: "values_at ''run_if'' templated_job =
     [JString ''ALL_SUCCESS'', JString ''ALL_SUCCESS'', JString ''ALL_SUCCESS'']"
    by (simp add: templated_job_def)
  from c1 c2 t1 t2 show ?thesis by blast
qed

text \<open>
  C9. Within each document all tasks name the same warehouse_id: d1184b8c2a8a87eb in the
  concrete document, the placeholder <DBSQL warehouse_id> in the templated one.
\<close>

theorem single_warehouse_per_job:
  "map warehouse_id (tasks concrete_job) =
     [Some ''d1184b8c2a8a87eb'', Some ''d1184b8c2a8a87eb'', Some ''d1184b8c2a8a87eb'']
   \<and> set (map warehouse_id (tasks concrete_job)) = {Some ''d1184b8c2a8a87eb''}
   \<and> map warehouse_id (tasks templated_job) =
     [Some ''<DBSQL warehouse_id>'', Some ''<DBSQL warehouse_id>'', Some ''<DBSQL warehouse_id>'']
   \<and> set (map warehouse_id (tasks templated_job)) = {Some ''<DBSQL warehouse_id>''}"
proof -
  have c1: "map warehouse_id (tasks concrete_job) =
     [Some ''d1184b8c2a8a87eb'', Some ''d1184b8c2a8a87eb'', Some ''d1184b8c2a8a87eb'']"
    by (simp add: accessor_defs concrete_job_def)
  have c2: "set (map warehouse_id (tasks concrete_job)) = {Some ''d1184b8c2a8a87eb''}"
    by (simp add: c1)
  have t1: "map warehouse_id (tasks templated_job) =
     [Some ''<DBSQL warehouse_id>'', Some ''<DBSQL warehouse_id>'', Some ''<DBSQL warehouse_id>'']"
    by (simp add: accessor_defs templated_job_def)
  have t2: "set (map warehouse_id (tasks templated_job)) = {Some ''<DBSQL warehouse_id>''}"
    by (simp add: t1)
  from c1 c2 t1 t2 show ?thesis by blast
qed

text \<open>
  C10. In both documents the first task, Create_Tables, is the only task without a
  depends_on field, and the only one with no dependency; the other two tasks have a
  depends_on field that names one task each.
\<close>

theorem create_tables_unique_root:
  "map (\<lambda>t. (task_key t, lacks_depends_on t, depends_on t)) (tasks concrete_job) =
     [(Some ''Create_Tables'', True, []),
      (Some ''Load_Data'', False, [''Create_Tables'']),
      (Some ''Query_Fact_Sales'', False, [''Load_Data''])]
   \<and> map task_key (filter lacks_depends_on (tasks concrete_job)) = [Some ''Create_Tables'']
   \<and> map task_key (filter (\<lambda>t. depends_on t = []) (tasks concrete_job)) = [Some ''Create_Tables'']
   \<and> map (\<lambda>t. (task_key t, lacks_depends_on t, depends_on t)) (tasks templated_job) =
     [(Some ''Create_Tables'', True, []),
      (Some ''Load_Data'', False, [''Create_Tables'']),
      (Some ''Query_Fact_Sales'', False, [''Load_Data''])]
   \<and> map task_key (filter lacks_depends_on (tasks templated_job)) = [Some ''Create_Tables'']
   \<and> map task_key (filter (\<lambda>t. depends_on t = []) (tasks templated_job)) = [Some ''Create_Tables'']"
proof -
  have c1: "map (\<lambda>t. (task_key t, lacks_depends_on t, depends_on t)) (tasks concrete_job) =
     [(Some ''Create_Tables'', True, []),
      (Some ''Load_Data'', False, [''Create_Tables'']),
      (Some ''Query_Fact_Sales'', False, [''Load_Data''])]"
    by (simp add: accessor_defs concrete_job_def)
  have c2: "map task_key (filter lacks_depends_on (tasks concrete_job)) = [Some ''Create_Tables'']"
    by (simp add: accessor_defs concrete_job_def)
  have c3: "map task_key (filter (\<lambda>t. depends_on t = []) (tasks concrete_job)) =
     [Some ''Create_Tables'']"
    by (simp add: accessor_defs concrete_job_def)
  have t1: "map (\<lambda>t. (task_key t, lacks_depends_on t, depends_on t)) (tasks templated_job) =
     [(Some ''Create_Tables'', True, []),
      (Some ''Load_Data'', False, [''Create_Tables'']),
      (Some ''Query_Fact_Sales'', False, [''Load_Data''])]"
    by (simp add: accessor_defs templated_job_def)
  have t2: "map task_key (filter lacks_depends_on (tasks templated_job)) = [Some ''Create_Tables'']"
    by (simp add: accessor_defs templated_job_def)
  have t3: "map task_key (filter (\<lambda>t. depends_on t = []) (tasks templated_job)) =
     [Some ''Create_Tables'']"
    by (simp add: accessor_defs templated_job_def)
  from c1 c2 c3 t1 t2 t3 show ?thesis by blast
qed

text \<open>
  C5. Round trip. Each document parses; writing the parsed value back as text and parsing
  that text again gives the same value, hence the same task graph: the same set of task
  keys, the same set of dependency edges and the same run_if for each task. The text
  written back is not the text of the notebook: it stands on one line.
\<close>

theorem roundtrip_preserves_task_graph:
  "parse concrete_text = Some concrete_job
   \<and> Option.bind (reserialize concrete_text) parse = Some concrete_job
   \<and> map_option task_graph (Option.bind (reserialize concrete_text) parse) =
       map_option task_graph (parse concrete_text)
   \<and> task_graph concrete_job =
       ({''Create_Tables'', ''Load_Data'', ''Query_Fact_Sales''},
        {(''Load_Data'', ''Create_Tables''), (''Query_Fact_Sales'', ''Load_Data'')},
        [(Some ''Create_Tables'', Some ''ALL_SUCCESS''),
         (Some ''Load_Data'', Some ''ALL_SUCCESS''),
         (Some ''Query_Fact_Sales'', Some ''ALL_SUCCESS'')])
   \<and> parse templated_text = Some templated_job
   \<and> Option.bind (reserialize templated_text) parse = Some templated_job
   \<and> map_option task_graph (Option.bind (reserialize templated_text) parse) =
       map_option task_graph (parse templated_text)
   \<and> task_graph templated_job = task_graph concrete_job"
proof -
  have c1: "parse concrete_text = Some concrete_job"
    by (rule parse_concrete_text)
  have c2: "Option.bind (reserialize concrete_text) parse = Some concrete_job"
    by (simp only: reserialize_def c1 option.map bind.bind_lunit parse_render_concrete)
  have c3: "map_option task_graph (Option.bind (reserialize concrete_text) parse) =
       map_option task_graph (parse concrete_text)"
    by (simp only: c1 c2)
  have t1: "parse templated_text = Some templated_job"
    by (rule parse_templated_text)
  have t2: "Option.bind (reserialize templated_text) parse = Some templated_job"
    by (simp only: reserialize_def t1 option.map bind.bind_lunit parse_render_templated)
  have t3: "map_option task_graph (Option.bind (reserialize templated_text) parse) =
       map_option task_graph (parse templated_text)"
    by (simp only: t1 t2)
  have g: "task_graph templated_job = task_graph concrete_job"
    by (simp only: concrete_task_graph templated_task_graph)
  from c1 c2 c3 concrete_task_graph t1 t2 t3 g show ?thesis by blast
qed

text \<open>
  C7. Scanning the text of the templated document for the four placeholders <GITPATH>,
  <DBSQL warehouse_id>, <GITUSERNAME> and <username>@<domain>.com finds eight
  occurrences, among them each of the four; and the text between the occurrences holds
  no angle bracket, so the document has no placeholder beside these four.
\<close>

theorem templated_placeholders_exact:
  "found_placeholders (scan placeholders 0 templated_text) =
     [''<GITPATH>'', ''<DBSQL warehouse_id>'', ''<GITPATH>'', ''<DBSQL warehouse_id>'',
      ''<GITPATH>'', ''<DBSQL warehouse_id>'', ''<GITUSERNAME>'', ''<username>@<domain>.com'']
   \<and> set (found_placeholders (scan placeholders 0 templated_text)) = set placeholders
   \<and> CHR ''<'' \<notin> set (plain_text (scan placeholders 0 templated_text))
   \<and> CHR ''>'' \<notin> set (plain_text (scan placeholders 0 templated_text))"
proof -
  have f: "found_placeholders (scan placeholders 0 templated_text) =
     [''<GITPATH>'', ''<DBSQL warehouse_id>'', ''<GITPATH>'', ''<DBSQL warehouse_id>'',
      ''<GITPATH>'', ''<DBSQL warehouse_id>'', ''<GITUSERNAME>'', ''<username>@<domain>.com'']"
    by (simp add: placeholders_def text_defs templated_text_def templated_lines_def)
  have s: "set (found_placeholders (scan placeholders 0 templated_text)) = set placeholders"
    unfolding f by (auto simp: placeholders_def)
  have p: "CHR ''<'' \<notin> set (plain_text (scan placeholders 0 templated_text))
     \<and> CHR ''>'' \<notin> set (plain_text (scan placeholders 0 templated_text))"
    by (simp add: placeholders_def text_defs templated_text_def templated_lines_def)
  from f s p show ?thesis by blast
qed

text \<open>
  C1. The templated document has the structure of the concrete one: the same shape (the
  same field names in the same nesting, arrays of the same length), hence the same paths
  to the leaves, the same task keys and the same dependency edges. The two differ at
  eight leaves, and there the templated value holds a placeholder where the concrete one
  holds none.
\<close>

theorem templated_isomorphic_to_concrete:
  "shape templated_job = shape concrete_job
   \<and> map fst (leaves templated_job) = map fst (leaves concrete_job)
   \<and> task_keys templated_job = task_keys concrete_job
   \<and> depends_on_edges templated_job = depends_on_edges concrete_job
   \<and> differing_leaves concrete_job templated_job =
       [([Key ''tasks'', Index 0, Key ''sql_task'', Key ''file'', Key ''path''],
         ''Demos and Tutorials/L100-200 Tutorials/1.Create_Tables.sql'',
         ''<GITPATH>/1.Create_Tables.sql''),
        ([Key ''tasks'', Index 0, Key ''sql_task'', Key ''warehouse_id''],
         ''d1184b8c2a8a87eb'', ''<DBSQL warehouse_id>''),
        ([Key ''tasks'', Index 1, Key ''sql_task'', Key ''file'', Key ''path''],
         ''/Repos/saurabh.shukla@databricks.com/dbsql_sme/Demos and Tutorials/L100-200 Tutorials/2.Load_Data.sql'',
         ''<GITPATH>/2.Load_Data.sql''),
        ([Key ''tasks'', Index 1, Key ''sql_task'', Key ''warehouse_id''],
         ''d1184b8c2a8a87eb'', ''<DBSQL warehouse_id>''),
        ([Key ''tasks'', Index 2, Key ''sql_task'', Key ''file'', Key ''path''],
         ''/Repos/saurabh.shukla@databricks.com/dbsql_sme/Demos and Tutorials/L100-200 Tutorials/3.Query_Fact_Sales.sql'',
         ''<GITPATH>/3.Query_Fact_Sales.sql''),
        ([Key ''tasks'', Index 2, Key ''sql_task'', Key ''warehouse_id''],
         ''d1184b8c2a8a87eb'', ''<DBSQL warehouse_id>''),
        ([Key ''git_source'', Key ''git_url''],
         ''https://github.com/saurabhshukla-db/dbsql_sme.git'',
         ''https://github.com/<GITUSERNAME>/dbsql_sme.git''),
        ([Key ''run_as'', Key ''user_name''],
         ''saurabh.shukla@databricks.com'', ''<username>@<domain>.com'')]
   \<and> list_all (\<lambda>(p, x, y). contains_placeholder y \<and> \<not> contains_placeholder x)
       (differing_leaves concrete_job templated_job)"
proof -
  have a: "shape templated_job = shape concrete_job"
    by (simp add: concrete_job_def templated_job_def)
  have b: "map fst (leaves templated_job) = map fst (leaves concrete_job)"
    by (simp add: concrete_job_def templated_job_def)
  have c: "task_keys templated_job = task_keys concrete_job"
    by (simp only: concrete_task_keys templated_task_keys)
  have d: "depends_on_edges templated_job = depends_on_edges concrete_job"
    by (simp only: concrete_edges templated_edges)
  have e: "differing_leaves concrete_job templated_job =
       [([Key ''tasks'', Index 0, Key ''sql_task'', Key ''file'', Key ''path''],
         ''Demos and Tutorials/L100-200 Tutorials/1.Create_Tables.sql'',
         ''<GITPATH>/1.Create_Tables.sql''),
        ([Key ''tasks'', Index 0, Key ''sql_task'', Key ''warehouse_id''],
         ''d1184b8c2a8a87eb'', ''<DBSQL warehouse_id>''),
        ([Key ''tasks'', Index 1, Key ''sql_task'', Key ''file'', Key ''path''],
         ''/Repos/saurabh.shukla@databricks.com/dbsql_sme/Demos and Tutorials/L100-200 Tutorials/2.Load_Data.sql'',
         ''<GITPATH>/2.Load_Data.sql''),
        ([Key ''tasks'', Index 1, Key ''sql_task'', Key ''warehouse_id''],
         ''d1184b8c2a8a87eb'', ''<DBSQL warehouse_id>''),
        ([Key ''tasks'', Index 2, Key ''sql_task'', Key ''file'', Key ''path''],
         ''/Repos/saurabh.shukla@databricks.com/dbsql_sme/Demos and Tutorials/L100-200 Tutorials/3.Query_Fact_Sales.sql'',
         ''<GITPATH>/3.Query_Fact_Sales.sql''),
        ([Key ''tasks'', Index 2, Key ''sql_task'', Key ''warehouse_id''],
         ''d1184b8c2a8a87eb'', ''<DBSQL warehouse_id>''),
        ([Key ''git_source'', Key ''git_url''],
         ''https://github.com/saurabhshukla-db/dbsql_sme.git'',
         ''https://github.com/<GITUSERNAME>/dbsql_sme.git''),
        ([Key ''run_as'', Key ''user_name''],
         ''saurabh.shukla@databricks.com'', ''<username>@<domain>.com'')]"
    by (simp add: differing_leaves_def concrete_job_def templated_job_def)
  have f: "list_all (\<lambda>(p, x, y). contains_placeholder y \<and> \<not> contains_placeholder x)
       (differing_leaves concrete_job templated_job)"
    unfolding e by (simp add: contains_placeholder_def placeholders_def sublist_code)
  from a b c d e f show ?thesis by blast
qed

end
